theory Spec2Isabelle
  imports Main "HOL-Library.AList"
begin

section \<open>Strings and JavaScript values\<close>

text \<open>
  JavaScript strings are modelled as \<^typ>\<open>string\<close>; a value of type
  \<^verbatim>\<open>string | undefined\<close> (or \<^verbatim>\<open>string | null\<close>) is a \<^typ>\<open>string option\<close>.
  A string is falsy exactly when it is empty, an optional string when it is
  absent or empty.
\<close>

definition truthy :: "string option \<Rightarrow> bool" where
  "truthy v = (case v of None \<Rightarrow> False | Some s \<Rightarrow> s \<noteq> [])"

text \<open>\<^verbatim>\<open>a || b\<close> on optional strings.\<close>

definition js_or :: "string option \<Rightarrow> string option \<Rightarrow> string option" where
  "js_or a b = (if truthy a then a else b)"

text \<open>\<^verbatim>\<open>s.startsWith(p)\<close>.\<close>

definition startsWith :: "string \<Rightarrow> string \<Rightarrow> bool" where
  "startsWith s p = (take (length p) s = p)"

text \<open>\<^verbatim>\<open>s.split(c)\<close> for a one-character separator: never the empty list.\<close>

fun split_on :: "char \<Rightarrow> string \<Rightarrow> string list" where
  "split_on c [] = [[]]"
| "split_on c (x # xs) =
     (if x = c then [] # split_on c xs
      else (case split_on c xs of
              [] \<Rightarrow> [[x]]
            | w # ws \<Rightarrow> (x # w) # ws))"

text \<open>\<^verbatim>\<open>parts.join(sep)\<close>.\<close>

fun join_with :: "string \<Rightarrow> string list \<Rightarrow> string" where
  "join_with sep [] = []"
| "join_with sep [x] = x"
| "join_with sep (x # y # ys) = x @ sep @ join_with sep (y # ys)"

text \<open>
  White space and line terminators removed by \<^verbatim>\<open>String.prototype.trim\<close>, among
  the code units below 256: TAB, LF, VT, FF, CR, SPACE and NBSP.
\<close>

definition is_space :: "char \<Rightarrow> bool" where
  "is_space c = (c \<in> set [CHR 0x09, CHR 0x0A, CHR 0x0B, CHR 0x0C, CHR 0x0D, CHR 0x20, CHR 0xA0])"

definition trim :: "string \<Rightarrow> string" where
  "trim s = rev (dropWhile is_space (rev (dropWhile is_space s)))"

text \<open>\<^verbatim>\<open>s.indexOf(c)\<close> for a character: \<open>-1\<close> when absent.\<close>

definition indexOf :: "char \<Rightarrow> string \<Rightarrow> int" where
  "indexOf c s = (if c \<in> set s then int (length (takeWhile (\<lambda>x. x \<noteq> c) s)) else - 1)"


section \<open>Node's POSIX path functions\<close>

text \<open>
  \<^verbatim>\<open>path.join\<close> and \<^verbatim>\<open>path.resolve\<close> come from Node's \<^verbatim>\<open>path\<close> module. They are
  modelled after \<^verbatim>\<open>path.posix\<close>: \<^verbatim>\<open>normalizeString\<close> walks the segments between
  slashes, skipping empty and \<^verbatim>\<open>.\<close> segments; a \<^verbatim>\<open>..\<close> segment removes the last
  kept segment unless there is none or it is \<^verbatim>\<open>..\<close> itself, in which case it is kept
  when \<open>allowAboveRoot\<close> holds and dropped otherwise. The kept segments are held
  in reverse order while walking.
\<close>

fun normalize_segments :: "bool \<Rightarrow> string list \<Rightarrow> string list \<Rightarrow> string list" where
  "normalize_segments allowAboveRoot acc [] = rev acc"
| "normalize_segments allowAboveRoot acc (seg # segs) =
     (if seg = [] \<or> seg = ''.'' then normalize_segments allowAboveRoot acc segs
      else if seg = ''..'' then
        (case acc of
           [] \<Rightarrow> normalize_segments allowAboveRoot (if allowAboveRoot then [''..''] else []) segs
         | a # acc' \<Rightarrow>
             if a = ''..''
             then normalize_segments allowAboveRoot (if allowAboveRoot then ''..'' # acc else acc) segs
             else normalize_segments allowAboveRoot acc' segs)
      else normalize_segments allowAboveRoot (seg # acc) segs)"

definition normalizeString :: "string \<Rightarrow> bool \<Rightarrow> string" where
  "normalizeString p allowAboveRoot =
     join_with ''/'' (normalize_segments allowAboveRoot [] (split_on CHR ''/'' p))"

definition isAbsolute :: "string \<Rightarrow> bool" where
  "isAbsolute p = (case p of [] \<Rightarrow> False | c # _ \<Rightarrow> c = CHR ''/'')"

definition path_normalize :: "string \<Rightarrow> string" where
  "path_normalize p =
     (if p = [] then ''.''
      else
        let trailingSeparator = (last p = CHR ''/'');
            q = normalizeString p (\<not> isAbsolute p)
        in if q = [] then (if isAbsolute p then ''/'' else if trailingSeparator then ''./'' else ''.'')
           else
             let q' = (if trailingSeparator then q @ ''/'' else q)
             in if isAbsolute p then ''/'' @ q' else q')"

text \<open>\<^verbatim>\<open>path.join(a, b)\<close>: zero-length arguments are skipped.\<close>

definition path_join :: "string \<Rightarrow> string \<Rightarrow> string" where
  "path_join a b =
     (if a = [] \<and> b = [] then ''.''
      else if a = [] then path_normalize b
      else if b = [] then path_normalize a
      else path_normalize (a @ ''/'' @ b))"

text \<open>
  \<^verbatim>\<open>path.resolve(p)\<close> with one argument; \<open>cwd\<close> is the working directory of the
  process, used when \<open>p\<close> is not absolute.
\<close>

definition path_resolve :: "string \<Rightarrow> string \<Rightarrow> string" where
  "path_resolve cwd p =
     (let r1 = (if p = [] then [] else p @ ''/'');
          abs1 = isAbsolute p;
          r2 = (if abs1 \<or> cwd = [] then r1 else cwd @ ''/'' @ r1);
          abs2 = (abs1 \<or> isAbsolute cwd);
          q = normalizeString r2 (\<not> abs2)
      in if abs2 then ''/'' @ q else if q \<noteq> [] then q else ''.'')"


section \<open>Errors\<close>

text \<open>Every \<^verbatim>\<open>throw new Error(message)\<close> of the source is a value \<open>Error message\<close>.\<close>

datatype error = Error string

text \<open>The messages thrown by \<^verbatim>\<open>createAgentRuntime\<close> and \<^verbatim>\<open>getModelInstance\<close>.\<close>

definition MissingThreadId :: error where
  "MissingThreadId = Error ''Thread ID is required for checkpointing.''"

definition MissingWorkspace :: error where
  "MissingWorkspace = Error
     ''Workspace path is required. Please select a workspace folder before running the agent.''"

definition CredentialMissing :: error where
  "CredentialMissing = Error ''API key not configured. Please add your API key in settings.''"

definition NoDefaultModel :: error where
  "NoDefaultModel = Error ''No default model configured. Please add a model in settings.''"


section \<open>The process and its files\<close>

text \<open>
  A \<^verbatim>\<open>UserModel\<close> record (\<^verbatim>\<open>id\<close>, \<^verbatim>\<open>name\<close>, \<^verbatim>\<open>modelId\<close>, optional \<^verbatim>\<open>description\<close>, optional
  \<^verbatim>\<open>isDefault\<close>). The fields \<^verbatim>\<open>id\<close> and \<^verbatim>\<open>name\<close> are called \<open>um_id\<close> and \<open>um_name\<close>.
\<close>

record UserModel =
  um_id :: string
  um_name :: string
  modelId :: string
  description :: "string option"
  isDefault :: "bool option"

text \<open>
  The content of \<^verbatim>\<open>user-models.json\<close>: the file may be absent, may hold text that
  \<^verbatim>\<open>JSON.parse\<close> rejects, or holds an array of records.
\<close>

datatype models_file = Absent | Unparsable | Models "UserModel list"

text \<open>A \<^verbatim>\<open>SqlJsSaver\<close> object: \<open>hid\<close> is its identity, \<open>dbPath\<close> the file it opens.\<close>

record SqlJsSaver =
  hid :: nat
  dbPath :: string

text \<open>
  An entry of the disk as \<^verbatim>\<open>fs.stat\<close> and \<^verbatim>\<open>fs.readFile\<close> see it: a directory, or a
  file with its content, its size and its modification time (as the ISO string
  the handlers return). \<open>fs_op\<close> records a call of one of the two.
\<close>

datatype fs_node = Directory | File string nat string

datatype fs_op = Stat string | ReadFile string

text \<open>A tool offered by an external server, by name.\<close>

datatype tool = Tool string

datatype log_level = Info | Success | Failure | Debug

type_synonym log_entry = "log_level \<times> string \<times> string list"

text \<open>
  The state the modules share: the constants of the installation (\<open>homedir\<close>,
  \<open>cwd\<close>, \<open>dirname\<close> for \<^verbatim>\<open>__dirname\<close>, the imported \<open>BASE_SYSTEM_PROMPT\<close>,
  \<open>skill_names\<close> for what \<^verbatim>\<open>listSkills\<close> finds),
  the files under \<^verbatim>\<open>~/.openwork\<close>, \<^verbatim>\<open>process.env\<close>, the \<^verbatim>\<open>settings\<close> store, the
  \<^verbatim>\<open>workspacePath\<close> stored in each thread's metadata, the disk (keyed by resolved
  absolute path) with the log of the calls made to it, the
  module-level variables of the runtime (\<open>checkpointers\<close>, \<open>mcpClient\<close>,
  \<open>mcpTools\<close>) and the console. \<open>savers\<close> lists every \<^verbatim>\<open>SqlJsSaver\<close> constructed
  so far and \<open>init_calls\<close> the savers whose \<^verbatim>\<open>initialize()\<close> was called, in order.
\<close>

record world =
  homedir :: string
  cwd :: string
  dirname :: string
  BASE_SYSTEM_PROMPT :: string
  skill_names :: "string list"
  openwork_dir_exists :: bool
  threads_dir_exists :: bool
  env_file :: "string option"
  process_env :: "string \<rightharpoonup> string"
  user_models_file :: models_file
  settings :: "string \<rightharpoonup> string"
  thread_workspacePath :: "string \<rightharpoonup> string"
  disk :: "string \<rightharpoonup> fs_node"
  fs_ops :: "fs_op list"
  checkpointers :: "string \<rightharpoonup> SqlJsSaver"
  savers :: "SqlJsSaver list"
  init_calls :: "nat list"
  mcpClient :: bool
  mcpTools :: "tool list"
  console :: "log_entry list"

definition consola :: "log_level \<Rightarrow> string \<Rightarrow> string list \<Rightarrow> world \<Rightarrow> world" where
  "consola lvl msg args w = w\<lparr>console := console w @ [(lvl, msg, args)]\<rparr>"


section \<open>Storage\<close>

text \<open>
  The storage module that keeps the credential and the base URL in
  \<^verbatim>\<open>~/.openwork/.env\<close> and the model records in \<^verbatim>\<open>user-models.json\<close>.
\<close>

definition OPENWORK_DIR :: "world \<Rightarrow> string" where
  "OPENWORK_DIR w = path_join (homedir w) ''.openwork''"

definition OPENAI_API_KEY :: string where
  "OPENAI_API_KEY = ''OPENAI_API_KEY''"

definition OPENAI_BASE_URL :: string where
  "OPENAI_BASE_URL = ''OPENAI_BASE_URL''"

definition DEFAULT_BASE_URL :: string where
  "DEFAULT_BASE_URL = ''https://api.openai.com/v1''"

definition getOpenworkDir :: "world \<Rightarrow> string \<times> world" where
  "getOpenworkDir w = (OPENWORK_DIR w, w\<lparr>openwork_dir_exists := True\<rparr>)"

definition getThreadCheckpointDir :: "world \<Rightarrow> string \<times> world" where
  "getThreadCheckpointDir w =
     (let (d, w1) = getOpenworkDir w
      in (path_join d ''threads'', w1\<lparr>threads_dir_exists := True\<rparr>))"

definition getThreadCheckpointPath :: "string \<Rightarrow> world \<Rightarrow> string \<times> world" where
  "getThreadCheckpointPath threadId w =
     (let (d, w1) = getThreadCheckpointDir w
      in (path_join d (threadId @ ''.sqlite''), w1))"

text \<open>
  \<^verbatim>\<open>parseEnvFile\<close>: the \<^verbatim>\<open>Record<string, string>\<close> it builds is an association
  list in insertion order; assigning to a key that is present keeps its place.
  (JavaScript enumerates keys that are array indices first, and an assignment
  to the key \<^verbatim>\<open>__proto__\<close> adds no entry; the order of the entries only decides
  the order of the lines written, and neither touches the key of the
  credential.) \<^verbatim>\<open>process.env\<close> is the
  POSIX one, where a variable may hold the empty string.
\<close>

definition parse_line :: "string \<Rightarrow> (string \<times> string) list \<Rightarrow> (string \<times> string) list" where
  "parse_line line result =
     (let trimmed = trim line
      in if trimmed = [] \<or> startsWith trimmed ''#'' then result
         else
           let eqIndex = indexOf CHR ''='' trimmed
           in if eqIndex > 0
              then AList.update (trim (take (nat eqIndex) trimmed))
                                (trim (drop (nat eqIndex + 1) trimmed)) result
              else result)"

definition parseEnvFile :: "world \<Rightarrow> (string \<times> string) list" where
  "parseEnvFile w =
     (case env_file w of
        None \<Rightarrow> []
      | Some content \<Rightarrow> fold parse_line (split_on CHR 0x0A content) [])"

definition writeEnvFile :: "(string \<times> string) list \<Rightarrow> world \<Rightarrow> world" where
  "writeEnvFile env w =
     (let (d, w1) = getOpenworkDir w;
          lines = map (\<lambda>(k, v). k @ ''='' @ v) (filter (\<lambda>entry. snd entry \<noteq> []) env)
      in w1\<lparr>env_file := Some (join_with [CHR 0x0A] lines @ [CHR 0x0A])\<rparr>)"

definition getApiKey :: "world \<Rightarrow> string option" where
  "getApiKey w =
     (let env = parseEnvFile w
      in if truthy (map_of env OPENAI_API_KEY) then map_of env OPENAI_API_KEY
         else process_env w OPENAI_API_KEY)"




definition getBaseUrl :: "world \<Rightarrow> string" where
  "getBaseUrl w =
     (let env = parseEnvFile w
      in case js_or (map_of env OPENAI_BASE_URL)
                    (js_or (process_env w OPENAI_BASE_URL) (Some DEFAULT_BASE_URL)) of
           Some url \<Rightarrow> url
         | None \<Rightarrow> DEFAULT_BASE_URL)"

definition setBaseUrl :: "string \<Rightarrow> world \<Rightarrow> world" where
  "setBaseUrl url w =
     (let env = AList.update OPENAI_BASE_URL url (parseEnvFile w);
          w1 = writeEnvFile env w
      in w1\<lparr>process_env := (process_env w1)(OPENAI_BASE_URL \<mapsto> url)\<rparr>)"

definition getUserModels :: "world \<Rightarrow> UserModel list" where
  "getUserModels w =
     (case user_models_file w of
        Absent \<Rightarrow> []
      | Unparsable \<Rightarrow> []
      | Models ms \<Rightarrow> ms)"

definition setUserModels :: "UserModel list \<Rightarrow> world \<Rightarrow> world" where
  "setUserModels models w =
     (let (d, w1) = getOpenworkDir w
      in w1\<lparr>user_models_file := Models models\<rparr>)"

text \<open>\<^verbatim>\<open>xs.findIndex(p)\<close>: the first index where \<open>p\<close> holds, \<open>-1\<close> when there is none.\<close>

definition findIndex :: "('a \<Rightarrow> bool) \<Rightarrow> 'a list \<Rightarrow> int" where
  "findIndex p xs =
     (if find p xs = None then - 1 else int (length (takeWhile (\<lambda>x. \<not> p x) xs)))"

text \<open>The update of the array in \<^verbatim>\<open>addUserModel\<close>: replace at the index found, or push.\<close>

definition put_model :: "UserModel \<Rightarrow> UserModel list \<Rightarrow> UserModel list" where
  "put_model model models =
     (let existingIndex = findIndex (\<lambda>m. um_id m = um_id model) models
      in if existingIndex \<ge> 0 then models[nat existingIndex := model]
         else models @ [model])"

definition addUserModel :: "UserModel \<Rightarrow> world \<Rightarrow> world" where
  "addUserModel model w = setUserModels (put_model model (getUserModels w)) w"

definition deleteUserModel :: "string \<Rightarrow> world \<Rightarrow> world" where
  "deleteUserModel mid w =
     setUserModels (filter (\<lambda>m. um_id m \<noteq> mid) (getUserModels w)) w"


section \<open>Model handlers\<close>

text \<open>\<^verbatim>\<open>m.isDefault\<close> used as a condition: an absent flag is falsy.\<close>

definition flagged :: "UserModel \<Rightarrow> bool" where
  "flagged m = (isDefault m = Some True)"

text \<open>\<^verbatim>\<open>getDefaultModel\<close>, and the \<^verbatim>\<open>models:getDefault\<close> handler, which has the same body.\<close>

definition getDefaultModel :: "world \<Rightarrow> string option" where
  "getDefaultModel w =
     js_or (map_option um_id (find flagged (getUserModels w))) (settings w ''defaultModel'')"

text \<open>The \<^verbatim>\<open>models:setDefault\<close> handler.\<close>

definition models_setDefault :: "string \<Rightarrow> world \<Rightarrow> world" where
  "models_setDefault mid w =
     (let w1 = w\<lparr>settings := (settings w)(''defaultModel'' \<mapsto> mid)\<rparr>;
          models = getUserModels w1;
          updated = map (\<lambda>m. m\<lparr>isDefault := Some (um_id m = mid)\<rparr>) models
      in setUserModels updated w1)"

text \<open>The number of records whose default flag is set.\<close>

definition default_count :: "UserModel list \<Rightarrow> nat" where
  "default_count ms = length (filter flagged ms)"


section \<open>External tool servers\<close>

text \<open>The keys of \<^verbatim>\<open>MCP_SERVERS\<close>, in the order of the object literal.\<close>

definition MCP_SERVERS :: "string list" where
  "MCP_SERVERS = [''exa'', ''stargate-yingmi'']"

definition tool_name :: "tool \<Rightarrow> string" where
  "tool_name t = (case t of Tool n \<Rightarrow> n)"

text \<open>
  The \<^verbatim>\<open>try\<close> block of \<^verbatim>\<open>initMCP\<close>. \<open>loaded\<close> is what constructing the
  \<^verbatim>\<open>MultiServerMCPClient\<close> and awaiting its \<^verbatim>\<open>getTools()\<close> produce: the tools, or
  the error raised. The assignment to \<open>mcpClient\<close> comes before the call. The
  result pairs the error raised, if any, with the state reached.
\<close>

definition initMCP_try :: "error + tool list \<Rightarrow> world \<Rightarrow> error option \<times> world" where
  "initMCP_try loaded w =
     (let w1 = w\<lparr>mcpClient := True\<rparr>
      in case loaded of
           Inl e \<Rightarrow> (Some e, w1)
         | Inr ts \<Rightarrow>
             (None,
              consola Info ''[MCP] Available tools:'' (map tool_name ts)
                (consola Success ''[MCP] Connected to multiple servers:'' MCP_SERVERS
                  (w1\<lparr>mcpTools := ts\<rparr>))))"

definition error_message :: "error \<Rightarrow> string" where
  "error_message e = (case e of Error m \<Rightarrow> m)"

text \<open>
  \<^verbatim>\<open>initMCP\<close>: the \<^verbatim>\<open>catch\<close> clause logs the error and resets both variables.
  The result is \<open>Inr\<close> of the state when the call returns and would be \<open>Inl\<close> of
  an error if it raised.
\<close>

definition initMCP :: "error + tool list \<Rightarrow> world \<Rightarrow> error + world" where
  "initMCP loaded w =
     (case initMCP_try loaded w of
        (None, w') \<Rightarrow> Inr w'
      | (Some e, w') \<Rightarrow>
          Inr ((consola Failure ''[MCP] Failed to connect:'' [error_message e] w')
                 \<lparr>mcpClient := False, mcpTools := []\<rparr>))"

text \<open>
  What \<^verbatim>\<open>getTools()\<close> of a \<^verbatim>\<open>MultiServerMCPClient\<close> built without options returns,
  given the outcome \<open>conn name\<close> of connecting to each server: the package is
  not part of the repository, and this follows its documented defaults
  (\<^verbatim>\<open>onConnectionError: "throw"\<close>), under which the first server that fails makes
  the whole call fail.
\<close>

fun client_getTools :: "(string \<Rightarrow> error + tool list) \<Rightarrow> string list \<Rightarrow> error + tool list" where
  "client_getTools conn [] = Inr []"
| "client_getTools conn (n # ns) =
     (case conn n of
        Inl e \<Rightarrow> Inl e
      | Inr ts \<Rightarrow>
          (case client_getTools conn ns of
             Inl e \<Rightarrow> Inl e
           | Inr ts' \<Rightarrow> Inr (ts @ ts')))"


section \<open>Checkpointers\<close>

text \<open>
  \<^verbatim>\<open>getCheckpointer\<close> suspends once, at \<^verbatim>\<open>await checkpointer.initialize()\<close>. The
  code before the \<^verbatim>\<open>await\<close> runs without interruption: it reads the cache and,
  on a miss, constructs the saver and calls \<^verbatim>\<open>initialize()\<close>. The code after it
  runs when the initialization has settled: \<open>failure\<close> is \<open>None\<close> when it
  succeeded and the error it rejected with otherwise. A call is in one of four
  phases.
\<close>

datatype acquire =
    Start string
  | AwaitInit string SqlJsSaver
  | Returned SqlJsSaver
  | Rejected error

definition getCheckpointer_begin :: "string \<Rightarrow> world \<Rightarrow> acquire \<times> world" where
  "getCheckpointer_begin threadId w =
     (case checkpointers w threadId of
        Some checkpointer \<Rightarrow> (Returned checkpointer, w)
      | None \<Rightarrow>
          let (path, w1) = getThreadCheckpointPath threadId w;
              checkpointer = \<lparr>hid = length (savers w1), dbPath = path\<rparr>
          in (AwaitInit threadId checkpointer,
              w1\<lparr>savers := savers w1 @ [checkpointer],
                  init_calls := init_calls w1 @ [hid checkpointer]\<rparr>))"

definition getCheckpointer_resume ::
  "error option \<Rightarrow> string \<Rightarrow> SqlJsSaver \<Rightarrow> world \<Rightarrow> acquire \<times> world" where
  "getCheckpointer_resume failure threadId checkpointer w =
     (case failure of
        Some e \<Rightarrow> (Rejected e, w)
      | None \<Rightarrow>
          (Returned checkpointer,
           w\<lparr>checkpointers := (checkpointers w)(threadId \<mapsto> checkpointer)\<rparr>))"

text \<open>One turn of a call: up to its \<^verbatim>\<open>await\<close>, or from there to its end.\<close>

fun advance :: "error option \<Rightarrow> acquire \<Rightarrow> world \<Rightarrow> acquire \<times> world" where
  "advance failure (Start threadId) w = getCheckpointer_begin threadId w"
| "advance failure (AwaitInit threadId checkpointer) w =
     getCheckpointer_resume failure threadId checkpointer w"
| "advance failure (Returned checkpointer) w = (Returned checkpointer, w)"
| "advance failure (Rejected e) w = (Rejected e, w)"

text \<open>
  Calls in flight take turns on the one thread of the event loop: a schedule
  names, turn by turn, the call that runs and how its initialization settles.
\<close>

fun run_schedule ::
  "(nat \<times> error option) list \<Rightarrow> acquire list \<Rightarrow> world \<Rightarrow> acquire list \<times> world" where
  "run_schedule [] calls w = (calls, w)"
| "run_schedule ((i, failure) # turns) calls w =
     (if i < length calls
      then (let (c, w') = advance failure (calls ! i) w
            in run_schedule turns (calls[i := c]) w')
      else run_schedule turns calls w)"

text \<open>\<^verbatim>\<open>getCheckpointer\<close> run alone, from the call to its result.\<close>

definition getCheckpointer ::
  "error option \<Rightarrow> string \<Rightarrow> world \<Rightarrow> (error + SqlJsSaver) \<times> world" where
  "getCheckpointer failure threadId w =
     (case checkpointers w threadId of
        Some checkpointer \<Rightarrow> (Inr checkpointer, w)
      | None \<Rightarrow>
          let (path, w1) = getThreadCheckpointPath threadId w;
              checkpointer = \<lparr>hid = length (savers w1), dbPath = path\<rparr>;
              w2 = w1\<lparr>savers := savers w1 @ [checkpointer],
                      init_calls := init_calls w1 @ [hid checkpointer]\<rparr>
          in case failure of
               Some e \<Rightarrow> (Inl e, w2)
             | None \<Rightarrow>
                 (Inr checkpointer,
                  w2\<lparr>checkpointers := (checkpointers w2)(threadId \<mapsto> checkpointer)\<rparr>))"


section \<open>Model resolution\<close>

text \<open>The \<^verbatim>\<open>ChatOpenAI\<close> client, as the fields it is constructed with.\<close>

record ChatOpenAI =
  model :: string
  openAIApiKey :: string
  baseURL :: string
  apiKey :: string

text \<open>\<^verbatim>\<open>userModels.find((m) => m.id === id)?.modelId || id\<close>.\<close>

definition provider_id :: "UserModel list \<Rightarrow> string \<Rightarrow> string" where
  "provider_id userModels i =
     (case js_or (map_option modelId (find (\<lambda>m. um_id m = i) userModels)) (Some i) of
        Some a \<Rightarrow> a
      | None \<Rightarrow> i)"

text \<open>The two branches of \<^verbatim>\<open>if (modelId)\<close>: an absent or empty id takes the second.\<close>

definition default_branch :: "world \<Rightarrow> error + string" where
  "default_branch w =
     (case getDefaultModel w of
        None \<Rightarrow> Inl NoDefaultModel
      | Some defaultId \<Rightarrow>
          if defaultId = [] then Inl NoDefaultModel
          else Inr (provider_id (getUserModels w) defaultId))"

definition actual_model_id :: "string option \<Rightarrow> world \<Rightarrow> error + string" where
  "actual_model_id mid w =
     (case mid of
        None \<Rightarrow> default_branch w
      | Some i \<Rightarrow>
          if i = [] then default_branch w
          else Inr (provider_id (getUserModels w) i))"

definition getModelInstance :: "string option \<Rightarrow> world \<Rightarrow> (error + ChatOpenAI) \<times> world" where
  "getModelInstance mid w =
     (let key = getApiKey w;
          baseUrl = getBaseUrl w
      in case key of
           None \<Rightarrow> (Inl CredentialMissing, w)
         | Some k \<Rightarrow>
             if k = [] then (Inl CredentialMissing, w)
             else
               (case actual_model_id mid w of
                  Inl e \<Rightarrow> (Inl e, w)
                | Inr actualModelId \<Rightarrow>
                    (Inr \<lparr>model = actualModelId, openAIApiKey = k,
                          baseURL = baseUrl, apiKey = k\<rparr>,
                     consola Info ''[Runtime] API key present:'' [''true'']
                       (consola Info ''[Runtime] Base URL:'' [baseUrl]
                         (consola Info ''[Runtime] Using model:'' [actualModelId] w)))))"


section \<open>Creating the agent runtime\<close>

record CreateAgentRuntimeOptions =
  threadId :: string
  modelId_opt :: "string option"
  workspacePath :: string

text \<open>The options a \<^verbatim>\<open>LocalSandbox\<close> is constructed with.\<close>

record LocalSandbox =
  rootDir :: string
  virtualMode :: bool
  timeout :: nat
  maxOutputBytes :: nat

text \<open>The skills middleware, as the options it is created with.\<close>

record SkillsMiddleware =
  sm_backend :: LocalSandbox
  sources :: "string list"

text \<open>
  \<^verbatim>\<open>createDeepAgent\<close> belongs to an external package: the agent it returns is
  modelled as the configuration it is given. \<open>interruptOn\<close> lists the actions
  that wait for approval; \<open>tools\<close> is \<open>None\<close> for \<^verbatim>\<open>undefined\<close>.
\<close>

record DeepAgent =
  agent_model :: ChatOpenAI
  checkpointer :: SqlJsSaver
  backend :: LocalSandbox
  systemPrompt :: string
  filesystemSystemPrompt :: string
  interruptOn :: "(string \<times> bool) list"
  tools :: "tool list option"
  middleware :: "SkillsMiddleware list"

definition getSystemPrompt :: "string \<Rightarrow> world \<Rightarrow> string" where
  \<open>getSystemPrompt wp w =
     (''\<newline>### File System and Paths\<newline>\<newline>'' @
      ''**IMPORTANT - Path Handling:**\<newline>'' @
      ''- All file paths use fully qualified absolute system paths\<newline>'' @
      ''- The workspace root is: `'' @ wp @ ''`\<newline>'' @
      ''- Example: `'' @ wp @ ''/src/index.ts`, `'' @ wp @ ''/README.md`\<newline>'' @
      ''- To list the workspace root, use `ls("'' @ wp @ ''")`\<newline>'' @
      ''- Always use full absolute paths for all file operations\<newline>'')
     @ BASE_SYSTEM_PROMPT w\<close>

definition filesystem_prompt :: "string \<Rightarrow> string" where
  \<open>filesystem_prompt wp =
     ''You have access to a filesystem. All file paths use fully qualified absolute system paths.\<newline>\<newline>'' @
     ''- ls: list files in a directory (e.g., ls("'' @ wp @ ''"))\<newline>'' @
     ''- read_file: read a file from the filesystem\<newline>'' @
     ''- write_file: write to a file in the filesystem\<newline>'' @
     ''- edit_file: edit a file in the filesystem\<newline>'' @
     ''- glob: find files matching a pattern (e.g., "**/*.py")\<newline>'' @
     ''- grep: search for text within files\<newline>\<newline>'' @
     ''The workspace root is: '' @ wp\<close>

text \<open>
  \<^verbatim>\<open>createAgentRuntime\<close>, run without another call in between; \<open>failure\<close> is
  how the initialization of a new checkpointer settles.
\<close>

definition createAgentRuntime ::
  "error option \<Rightarrow> CreateAgentRuntimeOptions \<Rightarrow> world \<Rightarrow> (error + DeepAgent) \<times> world" where
  "createAgentRuntime failure options w =
     (if threadId options = [] then (Inl MissingThreadId, w)
      else if workspacePath options = [] then (Inl MissingWorkspace, w)
      else
        let w1 = consola Info ''[Runtime] Workspace path:'' [workspacePath options]
                   (consola Info ''[Runtime] Thread ID:'' [threadId options]
                     (consola Info ''[Runtime] Creating agent runtime...'' [] w));
            (m, w2) = getModelInstance (modelId_opt options) w1
        in case m of
             Inl e \<Rightarrow> (Inl e, w2)
           | Inr mdl \<Rightarrow>
               let w3 = consola Info ''[Runtime] Model instance created:'' [''object''] w2;
                   (c, w4) = getCheckpointer failure (threadId options) w3
               in case c of
                    Inl e \<Rightarrow> (Inl e, w4)
                  | Inr cp \<Rightarrow>
                      let w5 = consola Info ''[Runtime] Checkpointer ready for thread:''
                                 [threadId options] w4;
                          sandbox = \<lparr>rootDir = workspacePath options, virtualMode = False,
                                     timeout = 120000, maxOutputBytes = 100000\<rparr>;
                          skillsDir = path_join (dirname w5) ''skills'';
                          w6 = consola Info ''[Runtime] Available skills:'' (skill_names w5)
                                 (consola Info ''[Runtime] Skills dir:'' [skillsDir] w5);
                          agent = \<lparr>agent_model = mdl,
                                   checkpointer = cp,
                                   backend = sandbox,
                                   systemPrompt = getSystemPrompt (workspacePath options) w6,
                                   filesystemSystemPrompt = filesystem_prompt (workspacePath options),
                                   interruptOn = [(''execute'', True)],
                                   tools = (if length (mcpTools w6) > 0 then Some (mcpTools w6) else None),
                                   middleware = [\<lparr>sm_backend = sandbox, sources = [skillsDir]\<rparr>]\<rparr>
                      in (Inr agent,
                          consola Success ''[Runtime] Deep agent created with LocalSandbox at:''
                            [workspacePath options] w6))"


section \<open>Workspace file handlers\<close>

text \<open>What a read handler returns: \<^verbatim>\<open>{success: false, error}\<close> or
  \<^verbatim>\<open>{success: true, content, size, modified_at}\<close>.\<close>

datatype read_result = Failed string | Read string nat string

text \<open>
  \<^verbatim>\<open>fs.stat\<close> and \<^verbatim>\<open>fs.readFile\<close>: each logs the call and looks the path up on the
  disk; a missing entry, or reading a directory, raises the error of the
  operating system, whose message quotes the path.
\<close>

definition fs_stat :: "string \<Rightarrow> world \<Rightarrow> (error + fs_node) \<times> world" where
  "fs_stat p w =
     (let w1 = w\<lparr>fs_ops := fs_ops w @ [Stat p]\<rparr>
      in case disk w (path_resolve (cwd w) p) of
           None \<Rightarrow>
             (Inl (Error (''ENOENT: no such file or directory, stat '' @
                          [CHR 0x27] @ p @ [CHR 0x27])), w1)
         | Some node \<Rightarrow> (Inr node, w1))"

definition fs_readFile :: "string \<Rightarrow> world \<Rightarrow> (error + string) \<times> world" where
  "fs_readFile p w =
     (let w1 = w\<lparr>fs_ops := fs_ops w @ [ReadFile p]\<rparr>
      in case disk w (path_resolve (cwd w) p) of
           None \<Rightarrow>
             (Inl (Error (''ENOENT: no such file or directory, open '' @
                          [CHR 0x27] @ p @ [CHR 0x27])), w1)
         | Some Directory \<Rightarrow> (Inl (Error ''EISDIR: illegal operation on a directory, read''), w1)
         | Some (File content sz mtime) \<Rightarrow> (Inr content, w1))"

text \<open>
  The body shared by \<^verbatim>\<open>workspace:readFile\<close> and \<^verbatim>\<open>workspace:readBinaryFile\<close>,
  for a thread whose metadata, when present, is well-formed JSON;
  \<open>encode\<close> turns what was read into the content returned (the identity for
  text, base64 for binary). Errors raised inside the \<^verbatim>\<open>try\<close> block come back as
  \<open>Failed\<close> with their message.
\<close>

definition read_handler ::
  "(string \<Rightarrow> string) \<Rightarrow> string \<Rightarrow> string \<Rightarrow> world \<Rightarrow> read_result \<times> world" where
  "read_handler encode tid filePath w =
     (case thread_workspacePath w tid of
        None \<Rightarrow> (Failed ''No workspace folder linked'', w)
      | Some wsPath \<Rightarrow>
          if wsPath = [] then (Failed ''No workspace folder linked'', w)
          else
            let relativePath = (if startsWith filePath ''/'' then drop 1 filePath else filePath);
                fullPath = path_join wsPath relativePath;
                resolvedPath = path_resolve (cwd w) fullPath;
                resolvedWorkspace = path_resolve (cwd w) wsPath
            in if \<not> startsWith resolvedPath resolvedWorkspace
               then (Failed ''Access denied: path outside workspace'', w)
               else
                 (case fs_stat fullPath w of
                    (Inl e, w1) \<Rightarrow> (Failed (error_message e), w1)
                  | (Inr Directory, w1) \<Rightarrow> (Failed ''Cannot read directory as file'', w1)
                  | (Inr (File content0 sz mtime), w1) \<Rightarrow>
                      (case fs_readFile fullPath w1 of
                         (Inl e, w2) \<Rightarrow> (Failed (error_message e), w2)
                       | (Inr content, w2) \<Rightarrow> (Read (encode content) sz mtime, w2))))"

definition workspace_readFile :: "string \<Rightarrow> string \<Rightarrow> world \<Rightarrow> read_result \<times> world" where
  "workspace_readFile tid filePath w = read_handler (\<lambda>content. content) tid filePath w"

text \<open>\<open>base64\<close> stands for \<^verbatim>\<open>buffer.toString("base64")\<close>.\<close>

definition workspace_readBinaryFile ::
  "(string \<Rightarrow> string) \<Rightarrow> string \<Rightarrow> string \<Rightarrow> world \<Rightarrow> read_result \<times> world" where
  "workspace_readBinaryFile base64 tid filePath w = read_handler base64 tid filePath w"

text \<open>
  A path lies within a root when the root's segments are the first segments of
  the path's.
\<close>

definition segments :: "string \<Rightarrow> string list" where
  "segments p = filter (\<lambda>seg. seg \<noteq> []) (split_on CHR ''/'' p)"

definition lies_within :: "string \<Rightarrow> string \<Rightarrow> bool" where
  "lies_within root p = (take (length (segments root)) (segments p) = segments root)"


section \<open>An invariant of the parsed environment\<close>



section \<open>Concrete states\<close>

text \<open>A fresh installation: no files, no credential, nothing cached.\<close>

definition fresh :: world where
  "fresh = \<lparr>homedir = ''/home/u'', cwd = ''/app'', dirname = ''/app/out/main'',
            BASE_SYSTEM_PROMPT = ''You are an agent.'',
            skill_names = [''planning-with-files''],
            openwork_dir_exists = False, threads_dir_exists = False,
            env_file = None, process_env = Map.empty, user_models_file = Absent,
            settings = Map.empty, thread_workspacePath = Map.empty,
            disk = Map.empty, fs_ops = [],
            checkpointers = Map.empty, savers = [], init_calls = [],
            mcpClient = False, mcpTools = [], console = []\<rparr>"

text \<open>The same with a key in the environment of the process.\<close>

definition keyed :: world where
  "keyed = fresh\<lparr>process_env := [OPENAI_API_KEY \<mapsto> ''sk-test'']\<rparr>"

text \<open>A record with the given id, provider identifier and flag.\<close>

definition user_model :: "string \<Rightarrow> string \<Rightarrow> bool option \<Rightarrow> UserModel" where
  "user_model i p d =
     \<lparr>um_id = i, um_name = i, modelId = p, description = None, isDefault = d\<rparr>"

text \<open>A state with a key and the given records in \<^verbatim>\<open>user-models.json\<close>.\<close>

definition with_models :: "UserModel list \<Rightarrow> world" where
  "with_models ms = keyed\<lparr>user_models_file := Models ms\<rparr>"

text \<open>
  A thread bound to the workspace \<^verbatim>\<open>/home/u/ws\<close>, beside which lies a directory
  \<^verbatim>\<open>/home/u/ws-private\<close> holding a file.
\<close>

definition secret :: fs_node where
  "secret = File ''top secret'' 10 ''2024-01-01T00:00:00.000Z''"

definition sibling :: world where
  "sibling = fresh\<lparr>thread_workspacePath := [''t1'' \<mapsto> ''/home/u/ws''],
                    disk := [''/home/u/ws-private/secret.txt'' \<mapsto> secret]\<rparr>"

text \<open>The server \<^verbatim>\<open>exa\<close> refuses the connection; the other offers one tool.\<close>

definition one_down :: "string \<Rightarrow> error + tool list" where
  "one_down n =
     (if n = ''exa'' then Inl (Error ''connect ECONNREFUSED'') else Inr [Tool ''fund_search''])"

definition opts :: "string \<Rightarrow> string \<Rightarrow> CreateAgentRuntimeOptions" where
  "opts t wp = \<lparr>threadId = t, modelId_opt = Some ''gpt-4o'', workspacePath = wp\<rparr>"


section \<open>Facts about the operations\<close>

lemmas storage_defs =
  getOpenworkDir_def getThreadCheckpointDir_def getThreadCheckpointPath_def
  OPENWORK_DIR_def parseEnvFile_def getApiKey_def getBaseUrl_def getUserModels_def
  getDefaultModel_def

lemmas path_defs =
  path_join_def path_normalize_def path_resolve_def normalizeString_def isAbsolute_def

subsection \<open>The concrete states\<close>

lemma getApiKey_fresh: "getApiKey fresh = None"
  by (simp add: getApiKey_def parseEnvFile_def fresh_def truthy_def)

lemma getApiKey_keyed: "getApiKey keyed = Some ''sk-test''"
  by (simp add: getApiKey_def parseEnvFile_def keyed_def fresh_def truthy_def)

lemma getBaseUrl_keyed: "getBaseUrl keyed = DEFAULT_BASE_URL"
  by (simp add: getBaseUrl_def parseEnvFile_def js_or_def truthy_def keyed_def fresh_def
      OPENAI_API_KEY_def OPENAI_BASE_URL_def DEFAULT_BASE_URL_def)

lemma getUserModels_keyed: "getUserModels keyed = []"
  by (simp add: getUserModels_def keyed_def fresh_def)

lemma getModelInstance_keyed:
  "fst (getModelInstance (Some ''gpt-4o'') keyed) =
     Inr \<lparr>model = ''gpt-4o'', openAIApiKey = ''sk-test'',
          baseURL = DEFAULT_BASE_URL, apiKey = ''sk-test''\<rparr>"
  by (simp add: getModelInstance_def getApiKey_keyed getBaseUrl_keyed getUserModels_keyed
      actual_model_id_def provider_id_def js_or_def truthy_def)

subsection \<open>Logging changes nothing that is read\<close>

lemma parseEnvFile_consola [simp]: "parseEnvFile (consola lvl msg args w) = parseEnvFile w"
  by (simp add: parseEnvFile_def consola_def)

lemma process_env_consola [simp]: "process_env (consola lvl msg args w) = process_env w"
  by (simp add: consola_def)

lemma getApiKey_consola [simp]: "getApiKey (consola lvl msg args w) = getApiKey w"
  by (simp add: getApiKey_def Let_def)

lemma getBaseUrl_consola [simp]: "getBaseUrl (consola lvl msg args w) = getBaseUrl w"
  by (simp add: getBaseUrl_def Let_def)

lemma getUserModels_consola [simp]: "getUserModels (consola lvl msg args w) = getUserModels w"
  by (simp add: getUserModels_def consola_def)

lemma getDefaultModel_consola [simp]:
  "getDefaultModel (consola lvl msg args w) = getDefaultModel w"
  by (simp add: getDefaultModel_def) (simp add: consola_def)

lemma mcpTools_consola [simp]: "mcpTools (consola lvl msg args w) = mcpTools w"
  by (simp add: consola_def)

lemma getModelInstance_consola [simp]:
  "fst (getModelInstance mid (consola lvl msg args w)) = fst (getModelInstance mid w)"
  by (simp add: getModelInstance_def actual_model_id_def default_branch_def Let_def
           split: option.splits sum.splits)

lemma mcpTools_getModelInstance [simp]:
  "mcpTools (snd (getModelInstance mid w)) = mcpTools w"
  by (simp add: getModelInstance_def Let_def split: option.splits sum.splits)

lemma checkpointers_consola [simp]: "checkpointers (consola lvl msg args w) = checkpointers w"
  by (simp add: consola_def)

lemma checkpointers_getModelInstance [simp]:
  "checkpointers (snd (getModelInstance mid w)) = checkpointers w"
  by (simp add: getModelInstance_def Let_def split: option.splits sum.splits)

subsection \<open>When a session is created\<close>

lemma getCheckpointer_returns:
  "checkpointers w t \<noteq> None \<or> failure = None \<Longrightarrow>
   \<exists>cp w'. getCheckpointer failure t w = (Inr cp, w') \<and> mcpTools w' = mcpTools w"
  by (auto simp: getCheckpointer_def getThreadCheckpointPath_def getThreadCheckpointDir_def
      getOpenworkDir_def Let_def split: option.splits)

lemma getCheckpointer_rejects:
  "checkpointers w t = None \<Longrightarrow> fst (getCheckpointer (Some e) t w) = Inl e"
  by (simp add: getCheckpointer_def Let_def split: prod.splits)

text \<open>
  With a thread id, a workspace path and a model that resolves,
  \<^verbatim>\<open>createAgentRuntime\<close> returns an agent when the checkpointer of the thread is
  cached or its initialization succeeds; the agent's tools are \<open>mcpTools\<close> when
  that list is not empty and \<^verbatim>\<open>undefined\<close> when it is. When the initialization
  of a new checkpointer rejects, the call fails with that error.
\<close>

lemma createAgentRuntime_returns:
  assumes "threadId options \<noteq> []" and "workspacePath options \<noteq> []"
    and "fst (getModelInstance (modelId_opt options) w) = Inr m"
    and "checkpointers w (threadId options) \<noteq> None \<or> failure = None"
  shows "\<exists>agent w'. createAgentRuntime failure options w = (Inr agent, w') \<and>
           agent_model agent = m \<and>
           tools agent = (if mcpTools w = [] then None else Some (mcpTools w))"
proof -
  let ?w1 = "consola Info ''[Runtime] Workspace path:'' [workspacePath options]
               (consola Info ''[Runtime] Thread ID:'' [threadId options]
                 (consola Info ''[Runtime] Creating agent runtime...'' [] w))"
  obtain r w2 where m: "getModelInstance (modelId_opt options) ?w1 = (r, w2)"
    by (cases "getModelInstance (modelId_opt options) ?w1") auto
  have r: "r = Inr m"
    using assms(3) m getModelInstance_consola by (metis fst_conv)
  have t2: "mcpTools w2 = mcpTools w"
    using m mcpTools_getModelInstance [of "modelId_opt options" ?w1] by simp
  have c2: "checkpointers w2 = checkpointers w"
    using m checkpointers_getModelInstance [of "modelId_opt options" ?w1] by simp
  let ?w3 = "consola Info ''[Runtime] Model instance created:'' [''object''] w2"
  from assms(4) c2 have "checkpointers ?w3 (threadId options) \<noteq> None \<or> failure = None"
    by simp
  from getCheckpointer_returns [OF this]
  obtain cp w4 where c: "getCheckpointer failure (threadId options) ?w3 = (Inr cp, w4)"
    and t4: "mcpTools w4 = mcpTools ?w3"
    by blast
  show ?thesis
    using assms(1,2) m r c t2 t4
    by (simp add: createAgentRuntime_def Let_def)
qed

lemma createAgentRuntime_rejects:
  assumes "threadId options \<noteq> []" and "workspacePath options \<noteq> []"
    and "fst (getModelInstance (modelId_opt options) w) = Inr m"
    and "checkpointers w (threadId options) = None"
  shows "fst (createAgentRuntime (Some e) options w) = Inl e"
proof -
  let ?w1 = "consola Info ''[Runtime] Workspace path:'' [workspacePath options]
               (consola Info ''[Runtime] Thread ID:'' [threadId options]
                 (consola Info ''[Runtime] Creating agent runtime...'' [] w))"
  obtain r w2 where m: "getModelInstance (modelId_opt options) ?w1 = (r, w2)"
    by (cases "getModelInstance (modelId_opt options) ?w1") auto
  have r: "r = Inr m"
    using assms(3) m getModelInstance_consola by (metis fst_conv)
  have c2: "checkpointers w2 = checkpointers w"
    using m checkpointers_getModelInstance [of "modelId_opt options" ?w1] by simp
  let ?w3 = "consola Info ''[Runtime] Model instance created:'' [''object''] w2"
  from assms(4) c2 have "checkpointers ?w3 (threadId options) = None" by simp
  from getCheckpointer_rejects [OF this, of e]
  obtain w4 where c: "getCheckpointer (Some e) (threadId options) ?w3 = (Inl e, w4)"
    by (cases "getCheckpointer (Some e) (threadId options) ?w3") auto
  show ?thesis
    using assms(1,2) m r c by (simp add: createAgentRuntime_def Let_def)
qed


lemma createAgentRuntime_keyed:
  "\<exists>agent w'. createAgentRuntime None (opts ''t1'' ''/home/u/ws'') keyed = (Inr agent, w')"
  using createAgentRuntime_returns [of "opts ''t1'' ''/home/u/ws''" keyed _ None]
    getModelInstance_keyed
  by (simp add: opts_def) blast




subsection \<open>Model records\<close>

lemma getUserModels_with_models: "getUserModels (with_models ms) = ms"
  by (simp add: getUserModels_def with_models_def)

lemma getApiKey_with_models: "getApiKey (with_models ms) = Some ''sk-test''"
  by (simp add: getApiKey_def parseEnvFile_def with_models_def keyed_def fresh_def truthy_def)

lemma getDefaultModel_with_models:
  "getDefaultModel (with_models [user_model ''fast'' ''gpt-4o-mini'' (Some True)]) = Some ''fast''"
  by (simp add: getDefaultModel_def getUserModels_with_models js_or_def truthy_def flagged_def
      user_model_def)

lemma getDefaultModel_keyed: "getDefaultModel keyed = None"
  by (simp add: getDefaultModel_def getUserModels_keyed js_or_def truthy_def)
     (simp add: keyed_def fresh_def)

lemma resolve_blank:
  "fst (getModelInstance (Some ''fast'') (with_models [user_model ''fast'' [] None])) =
     Inr \<lparr>model = ''fast'', openAIApiKey = ''sk-test'',
          baseURL = getBaseUrl (with_models [user_model ''fast'' [] None]), apiKey = ''sk-test''\<rparr>"
  by (simp add: getModelInstance_def actual_model_id_def provider_id_def js_or_def truthy_def
      getApiKey_with_models getUserModels_with_models user_model_def Let_def)

lemma resolve_empty: "fst (getModelInstance (Some []) keyed) = Inl NoDefaultModel"
  by (simp add: getModelInstance_def actual_model_id_def getApiKey_keyed
      default_branch_def getDefaultModel_keyed Let_def)

lemma getUserModels_setUserModels [simp]: "getUserModels (setUserModels ms w) = ms"
  by (simp add: getUserModels_def setUserModels_def getOpenworkDir_def)

lemma findIndex_Nil [simp]: "findIndex p [] = - 1"
  by (simp add: findIndex_def)

lemma findIndex_Cons:
  "findIndex p (x # xs) =
     (if p x then 0 else if findIndex p xs \<ge> 0 then findIndex p xs + 1 else - 1)"
  by (simp add: findIndex_def)

lemma put_model_Nil [simp]: "put_model m [] = [m]"
  by (simp add: put_model_def)

lemma put_model_Cons [simp]:
  "put_model m (x # xs) = (if um_id x = um_id m then m # xs else x # put_model m xs)"
proof (cases "um_id x = um_id m")
  case True
  then show ?thesis by (simp add: put_model_def findIndex_def)
next
  case False
  show ?thesis
  proof (cases "find (\<lambda>y. um_id y = um_id m) xs")
    case None
    with False show ?thesis by (simp add: put_model_def findIndex_def)
  next
    case (Some a)
    have "nat (1 + int n) = Suc n" for n by simp
    with False Some show ?thesis by (simp add: put_model_def findIndex_def)
  qed
qed

lemma ids_put_model:
  "map um_id (put_model m xs) =
     (if um_id m \<in> um_id ` set xs then map um_id xs else map um_id xs @ [um_id m])"
  by (induction xs) auto

lemma distinct_put_model: "distinct (map um_id xs) \<Longrightarrow> distinct (map um_id (put_model m xs))"
  by (simp add: ids_put_model)

lemma count_same_id:
  "distinct (map um_id xs) \<Longrightarrow> length (filter (\<lambda>m. um_id m = i) xs) \<le> 1"
proof (induction xs)
  case Nil
  then show ?case by simp
next
  case (Cons x xs)
  show ?case
  proof (cases "um_id x = i")
    case True
    from Cons.prems have "um_id x \<notin> um_id ` set xs" by simp
    with True have "\<forall>y \<in> set xs. um_id y \<noteq> i" by (metis imageI)
    then have "filter (\<lambda>m. um_id m = i) xs = []" by (simp add: filter_empty_conv)
    with True show ?thesis by simp
  next
    case False
    with Cons show ?thesis by simp
  qed
qed

lemma count_after_setDefault:
  "default_count (map (\<lambda>m. m\<lparr>isDefault := Some (um_id m = i)\<rparr>) xs) =
     length (filter (\<lambda>m. um_id m = i) xs)"
  by (induction xs) (auto simp: default_count_def flagged_def)

lemma getUserModels_setDefault:
  "getUserModels (models_setDefault i w) = map (\<lambda>m. m\<lparr>isDefault := Some (um_id m = i)\<rparr>) (getUserModels w)"
  by (simp add: models_setDefault_def Let_def) (simp add: getUserModels_def)

lemma getUserModels_delete: "getUserModels (deleteUserModel i w) = filter (\<lambda>m. um_id m \<noteq> i) (getUserModels w)"
  by (simp add: deleteUserModel_def)

lemma getUserModels_add: "getUserModels (addUserModel m w) = put_model m (getUserModels w)"
  by (simp add: addUserModel_def)

lemma count_filter: "default_count (filter p xs) \<le> default_count xs"
  by (induction xs) (auto simp: default_count_def)


subsection \<open>Workspace paths\<close>

lemma read_handler_denied:
  assumes "thread_workspacePath w tid = Some ws" and "ws \<noteq> []"
    and "\<not> startsWith
            (path_resolve (cwd w)
               (path_join ws (if startsWith filePath ''/'' then drop 1 filePath else filePath)))
            (path_resolve (cwd w) ws)"
  shows "read_handler encode tid filePath w = (Failed ''Access denied: path outside workspace'', w)"
  using assms by (simp add: read_handler_def Let_def)

lemma sibling_join:
  "path_join ''/home/u/ws'' ''../ws-private/secret.txt'' = ''/home/u/ws-private/secret.txt''"
  by (simp add: path_defs)

lemma sibling_resolve:
  "path_resolve ''/app'' ''/home/u/ws-private/secret.txt'' = ''/home/u/ws-private/secret.txt''"
  by (simp add: path_defs)

lemma sibling_root: "path_resolve ''/app'' ''/home/u/ws'' = ''/home/u/ws''"
  by (simp add: path_defs)

text \<open>A path that climbs out of the workspace to another part of the disk is refused.\<close>

lemma traversal_denied:
  "read_handler encode ''t1'' ''/../../etc/passwd'' sibling =
     (Failed ''Access denied: path outside workspace'', sibling)"
  by (simp add: read_handler_def sibling_def fresh_def startsWith_def path_defs Let_def)

lemma sibling_read:
  "read_handler encode ''t1'' ''/../ws-private/secret.txt'' sibling =
     (Read (encode ''top secret'') 10 ''2024-01-01T00:00:00.000Z'',
      sibling\<lparr>fs_ops := [Stat ''/home/u/ws-private/secret.txt'',
                          ReadFile ''/home/u/ws-private/secret.txt'']\<rparr>)"
  by (simp add: read_handler_def sibling_def fresh_def startsWith_def sibling_join
      sibling_resolve sibling_root fs_stat_def fs_readFile_def secret_def Let_def)

subsection \<open>Connecting the tool servers\<close>

lemma getModelInstance_cong:
  assumes "env_file w' = env_file w" "process_env w' = process_env w"
    "user_models_file w' = user_models_file w" "settings w' = settings w"
  shows "fst (getModelInstance mid w') = fst (getModelInstance mid w)"
proof -
  have p: "parseEnvFile w' = parseEnvFile w" using assms by (simp add: parseEnvFile_def)
  have k: "getApiKey w' = getApiKey w" using assms p by (simp add: getApiKey_def Let_def)
  have b: "getBaseUrl w' = getBaseUrl w" using assms p by (simp add: getBaseUrl_def Let_def)
  have u: "getUserModels w' = getUserModels w" using assms by (simp add: getUserModels_def)
  have d: "getDefaultModel w' = getDefaultModel w" using assms u by (simp add: getDefaultModel_def)
  show ?thesis
    by (simp add: getModelInstance_def actual_model_id_def default_branch_def k b u d Let_def
        split: option.splits sum.splits)
qed

lemma initMCP_result:
  "\<exists>w'. initMCP loaded w = Inr w' \<and>
     mcpTools w' = (case loaded of Inl e \<Rightarrow> [] | Inr ts \<Rightarrow> ts) \<and>
     mcpClient w' = (case loaded of Inl e \<Rightarrow> False | Inr ts \<Rightarrow> True) \<and>
     env_file w' = env_file w \<and> process_env w' = process_env w \<and>
     user_models_file w' = user_models_file w \<and> settings w' = settings w \<and>
     checkpointers w' = checkpointers w"
  by (cases loaded) (simp_all add: initMCP_def initMCP_try_def consola_def)




section \<open>Writing and reading back the environment file\<close>

subsection \<open>Splitting and joining lines\<close>

lemma split_on_no_sep: "c \<notin> set l \<Longrightarrow> split_on c l = [l]"
  by (induction l) auto




subsection \<open>Trimming\<close>

lemma is_space_eq [simp]: "\<not> is_space CHR ''=''"
  by (simp add: is_space_def)


lemma trim_Nil [simp]: "trim [] = []"
  by (simp add: trim_def)





subsection \<open>Parsing one line\<close>

lemma parse_line_Nil [simp]: "parse_line [] r = r"
  by (simp add: parse_line_def)



subsection \<open>Parsing a written file\<close>












lemma parseEnvFile_process_env [simp]:
  "parseEnvFile (w\<lparr>process_env := e\<rparr>) = parseEnvFile w"
  by (simp add: parseEnvFile_def)

lemma process_env_writeEnvFile [simp]: "process_env (writeEnvFile env w) = process_env w"
  by (simp add: writeEnvFile_def getOpenworkDir_def)





section \<open>Checkpoint store\<close>

text \<open>
  C3. While a checkpointer for a thread id is cached, \<^verbatim>\<open>getCheckpointer\<close> returns
  that checkpointer and changes nothing: no saver is constructed and no
  initialization runs. In particular a call that follows a successful call for
  the same thread id returns the same checkpointer.
\<close>

theorem getCheckpointer_cached:
  "(checkpointers w t = Some h \<longrightarrow> getCheckpointer failure t w = (Inr h, w)) \<and>
   (getCheckpointer failure1 t w = (Inr h, w1) \<longrightarrow>
      getCheckpointer failure2 t w1 = (Inr h, w1) \<and>
      savers (snd (getCheckpointer failure2 t w1)) = savers w1 \<and>
      init_calls (snd (getCheckpointer failure2 t w1)) = init_calls w1)"
proof -
  have cached: "getCheckpointer f t v = (Inr k, v)" if "checkpointers v t = Some k" for f v k
    using that by (simp add: getCheckpointer_def)
  have "checkpointers w1 t = Some h" if "getCheckpointer failure1 t w = (Inr h, w1)"
    using that
    by (auto simp: getCheckpointer_def Let_def split: option.splits prod.splits)
  then show ?thesis using cached by simp
qed

theorem getCheckpointer_cached_witness:
  "fst (getCheckpointer None ''t1'' fresh) =
     Inr \<lparr>hid = 0, dbPath = ''/home/u/.openwork/threads/t1.sqlite''\<rparr> \<and>
   getCheckpointer None ''t1'' (snd (getCheckpointer None ''t1'' fresh)) =
     getCheckpointer None ''t1'' fresh \<and>
   length (savers (snd (getCheckpointer None ''t1'' fresh))) = 1"
proof -
  let ?h = "\<lparr>hid = 0, dbPath = ''/home/u/.openwork/threads/t1.sqlite''\<rparr>"
  obtain w1 where first: "getCheckpointer None ''t1'' fresh = (Inr ?h, w1)"
    and one: "length (savers w1) = 1"
    by (simp add: getCheckpointer_def storage_defs path_defs fresh_def Let_def)
  from getCheckpointer_cached [of fresh "''t1''" ?h None None w1 None] first
  have "getCheckpointer None ''t1'' w1 = (Inr ?h, w1)" by simp
  with first one show ?thesis by simp
qed


text \<open>A call scheduled alone, turn after turn, is \<^verbatim>\<open>getCheckpointer\<close> run alone.\<close>

lemma getCheckpointer_alone:
  "run_schedule [(0, failure), (0, failure)] [Start t] w =
     ([case fst (getCheckpointer failure t w) of Inl e \<Rightarrow> Rejected e | Inr h \<Rightarrow> Returned h],
      snd (getCheckpointer failure t w))"
  by (simp add: getCheckpointer_def getCheckpointer_begin_def getCheckpointer_resume_def
      Let_def split: option.splits prod.splits)

text \<open>
  Two calls for the same thread id made before either has resumed both miss the
  cache, and each constructs and initializes a saver of its own.
\<close>

lemma getCheckpointer_begin_twice:
  assumes "checkpointers w t = None"
  shows "\<exists>a b w'. run_schedule [(0, f0), (1, f1)] [Start t, Start t] w
            = ([AwaitInit t a, AwaitInit t b], w') \<and> hid a \<noteq> hid b \<and>
           savers w' = savers w @ [a, b] \<and> init_calls w' = init_calls w @ [hid a, hid b]"
  using assms
  by (simp add: getCheckpointer_begin_def getThreadCheckpointPath_def getThreadCheckpointDir_def
      getOpenworkDir_def Let_def)

text \<open>
  C2 fails on the code. Two calls of \<^verbatim>\<open>getCheckpointer\<close> for the thread \<^verbatim>\<open>t1\<close>,
  started one after the other before any initialization has settled, as two
  calls made in the same turn of the event loop are: both return, with two
  different savers on the same file, both initialized; the cache keeps the
  second.
\<close>

theorem getCheckpointer_interleaved:
  "run_schedule [(0, None), (1, None), (0, None), (1, None)] [Start ''t1'', Start ''t1''] fresh =
     ([Returned \<lparr>hid = 0, dbPath = ''/home/u/.openwork/threads/t1.sqlite''\<rparr>,
       Returned \<lparr>hid = 1, dbPath = ''/home/u/.openwork/threads/t1.sqlite''\<rparr>],
      fresh\<lparr>openwork_dir_exists := True, threads_dir_exists := True,
             checkpointers := [''t1'' \<mapsto> \<lparr>hid = 1, dbPath = ''/home/u/.openwork/threads/t1.sqlite''\<rparr>],
             savers := [\<lparr>hid = 0, dbPath = ''/home/u/.openwork/threads/t1.sqlite''\<rparr>,
                        \<lparr>hid = 1, dbPath = ''/home/u/.openwork/threads/t1.sqlite''\<rparr>],
             init_calls := [0, 1]\<rparr>)"
  by (simp add: getCheckpointer_begin_def getCheckpointer_resume_def storage_defs path_defs
      fresh_def Let_def)


section \<open>Creating a session\<close>

text \<open>
  C5, as amended. With an empty workspace path \<^verbatim>\<open>createAgentRuntime\<close> fails and
  leaves the state as it was, whatever the model id: with \<open>MissingWorkspace\<close>
  when the thread id is not empty, with \<open>MissingThreadId\<close> when it is, since the
  thread id is checked first. The state being unchanged, a repeated call fails
  in the same way.
\<close>

theorem createAgentRuntime_empty_workspace:
  "workspacePath options = [] \<Longrightarrow>
   createAgentRuntime failure options w =
     (Inl (if threadId options = [] then MissingThreadId else MissingWorkspace), w)"
  by (simp add: createAgentRuntime_def)

theorem createAgentRuntime_empty_workspace_witness:
  "createAgentRuntime None (opts ''t1'' []) keyed = (Inl MissingWorkspace, keyed)"
  using createAgentRuntime_empty_workspace [of "opts ''t1'' []" None keyed]
  by (simp add: opts_def)

text \<open>
  Counterexample to C5 as stated: with an empty thread id as well, the call
  fails with \<open>MissingThreadId\<close>, not with \<open>MissingWorkspace\<close>.
\<close>

theorem createAgentRuntime_empty_workspace_counterexample:
  "fst (createAgentRuntime None (opts [] []) keyed) = Inl MissingThreadId \<and>
   MissingThreadId \<noteq> MissingWorkspace"
  by (simp add: createAgentRuntime_def opts_def MissingThreadId_def MissingWorkspace_def)

text \<open>
  C6. Every agent that \<^verbatim>\<open>createAgentRuntime\<close> returns, for any options, any state
  and any outcome of the checkpointer's initialization, is configured with
  \<^verbatim>\<open>interruptOn: { execute: true }\<close>: command execution waits for approval.
\<close>

theorem createAgentRuntime_interruptOn:
  "createAgentRuntime failure options w = (Inr agent, w') \<Longrightarrow>
   interruptOn agent = [(''execute'', True)]"
  by (auto simp: createAgentRuntime_def Let_def split: if_splits prod.splits sum.splits)

theorem createAgentRuntime_interruptOn_witness:
  "\<exists>agent w'. createAgentRuntime None (opts ''t1'' ''/home/u/ws'') keyed = (Inr agent, w') \<and>
     interruptOn agent = [(''execute'', True)]"
proof -
  obtain agent w' where
    ok: "createAgentRuntime None (opts ''t1'' ''/home/u/ws'') keyed = (Inr agent, w')"
    using createAgentRuntime_keyed by blast
  from createAgentRuntime_interruptOn [OF ok] ok show ?thesis by blast
qed


section \<open>Model resolution\<close>

text \<open>
  C7. Whatever the model id, supplied or omitted: when \<^verbatim>\<open>getApiKey\<close> returns
  nothing (or the empty string), \<^verbatim>\<open>getModelInstance\<close> fails with
  \<open>CredentialMissing\<close> and changes nothing; and every client it returns is
  constructed with the non-empty key that \<^verbatim>\<open>getApiKey\<close> returned.
\<close>

theorem getModelInstance_credential:
  "(\<not> truthy (getApiKey w) \<longrightarrow> getModelInstance mid w = (Inl CredentialMissing, w)) \<and>
   (getModelInstance mid w = (Inr client, w') \<longrightarrow>
      getApiKey w = Some (openAIApiKey client) \<and> openAIApiKey client \<noteq> [] \<and>
      apiKey client = openAIApiKey client)"
  by (auto simp: getModelInstance_def truthy_def Let_def
           split: option.splits if_splits sum.splits)

theorem getModelInstance_credential_witness:
  "\<not> truthy (getApiKey fresh) \<and>
   getModelInstance (Some ''gpt-4o'') fresh = (Inl CredentialMissing, fresh) \<and>
   getModelInstance None fresh = (Inl CredentialMissing, fresh) \<and>
   (\<exists>client w'. getModelInstance (Some ''gpt-4o'') keyed = (Inr client, w') \<and>
      getApiKey keyed = Some (openAIApiKey client) \<and> openAIApiKey client = ''sk-test'')"
proof -
  have none: "\<not> truthy (getApiKey fresh)"
    by (simp add: getApiKey_fresh truthy_def)
  obtain client w' where ok: "getModelInstance (Some ''gpt-4o'') keyed = (Inr client, w')"
    using getModelInstance_keyed by (cases "getModelInstance (Some ''gpt-4o'') keyed") auto
  from getModelInstance_credential [of keyed "Some ''gpt-4o''" client w'] ok
  have "getApiKey keyed = Some (openAIApiKey client)" by simp
  moreover from this have "openAIApiKey client = ''sk-test''"
    by (simp add: getApiKey_keyed)
  ultimately show ?thesis
    using none ok getModelInstance_credential [of fresh "Some ''gpt-4o''"]
      getModelInstance_credential [of fresh None]
    by blast
qed


text \<open>
  C9, as amended. With a key configured and a non-empty model id supplied,
  \<^verbatim>\<open>getModelInstance\<close> builds the client for the \<^verbatim>\<open>modelId\<close> of the first record
  whose id is the supplied one, when there is such a record and its \<^verbatim>\<open>modelId\<close>
  is not empty; otherwise for the supplied id itself. A supplied empty id is
  treated as an omitted one, in every state: the call does what it does
  without a model id, which with a key configured is to resolve the default
  model id in the same way, or to fail with \<open>NoDefaultModel\<close> when there is
  none.
\<close>

theorem getModelInstance_provider_id:
  "(getApiKey w = Some k \<and> k \<noteq> [] \<and> i \<noteq> [] \<longrightarrow>
      fst (getModelInstance (Some i) w) =
        Inr \<lparr>model = (case find (\<lambda>m. um_id m = i) (getUserModels w) of
                         None \<Rightarrow> i
                       | Some m \<Rightarrow> if modelId m = [] then i else modelId m),
             openAIApiKey = k, baseURL = getBaseUrl w, apiKey = k\<rparr>) \<and>
   getModelInstance (Some []) w = getModelInstance None w \<and>
   (getApiKey w = Some k \<and> k \<noteq> [] \<longrightarrow>
      fst (getModelInstance None w) =
        (case getDefaultModel w of
           None \<Rightarrow> Inl NoDefaultModel
         | Some d \<Rightarrow>
             if d = [] then Inl NoDefaultModel
             else Inr \<lparr>model = (case find (\<lambda>m. um_id m = d) (getUserModels w) of
                                  None \<Rightarrow> d
                                | Some m \<Rightarrow> if modelId m = [] then d else modelId m),
                      openAIApiKey = k, baseURL = getBaseUrl w, apiKey = k\<rparr>))"
proof (intro conjI impI)
  assume "getApiKey w = Some k \<and> k \<noteq> [] \<and> i \<noteq> []"
  then show "fst (getModelInstance (Some i) w) =
        Inr \<lparr>model = (case find (\<lambda>m. um_id m = i) (getUserModels w) of
                         None \<Rightarrow> i
                       | Some m \<Rightarrow> if modelId m = [] then i else modelId m),
             openAIApiKey = k, baseURL = getBaseUrl w, apiKey = k\<rparr>"
    by (simp add: getModelInstance_def actual_model_id_def provider_id_def js_or_def truthy_def
        Let_def split: option.splits)
next
  show "getModelInstance (Some []) w = getModelInstance None w"
  proof -
    have "actual_model_id (Some []) w = actual_model_id None w"
      by (simp add: actual_model_id_def)
    then show ?thesis by (simp add: getModelInstance_def Let_def split: option.splits)
  qed
next
  assume "getApiKey w = Some k \<and> k \<noteq> []"
  then show "fst (getModelInstance None w) =
        (case getDefaultModel w of
           None \<Rightarrow> Inl NoDefaultModel
         | Some d \<Rightarrow>
             if d = [] then Inl NoDefaultModel
             else Inr \<lparr>model = (case find (\<lambda>m. um_id m = d) (getUserModels w) of
                                  None \<Rightarrow> d
                                | Some m \<Rightarrow> if modelId m = [] then d else modelId m),
                      openAIApiKey = k, baseURL = getBaseUrl w, apiKey = k\<rparr>)"
    by (simp add: getModelInstance_def actual_model_id_def default_branch_def provider_id_def
        js_or_def truthy_def Let_def split: option.splits)
qed

theorem getModelInstance_provider_id_witness:
  "fst (getModelInstance (Some ''fast'') (with_models [user_model ''fast'' ''gpt-4o-mini'' (Some True)])) =
     Inr \<lparr>model = ''gpt-4o-mini'', openAIApiKey = ''sk-test'',
          baseURL = getBaseUrl (with_models [user_model ''fast'' ''gpt-4o-mini'' (Some True)]),
          apiKey = ''sk-test''\<rparr> \<and>
   fst (getModelInstance (Some ''gpt-4o'') (with_models [user_model ''fast'' ''gpt-4o-mini'' (Some True)])) =
     Inr \<lparr>model = ''gpt-4o'', openAIApiKey = ''sk-test'',
          baseURL = getBaseUrl (with_models [user_model ''fast'' ''gpt-4o-mini'' (Some True)]),
          apiKey = ''sk-test''\<rparr> \<and>
   fst (getModelInstance (Some []) (with_models [user_model ''fast'' ''gpt-4o-mini'' (Some True)])) =
     Inr \<lparr>model = ''gpt-4o-mini'', openAIApiKey = ''sk-test'',
          baseURL = getBaseUrl (with_models [user_model ''fast'' ''gpt-4o-mini'' (Some True)]),
          apiKey = ''sk-test''\<rparr>"
proof -
  let ?w = "with_models [user_model ''fast'' ''gpt-4o-mini'' (Some True)]"
  have k: "getApiKey ?w = Some ''sk-test''" by (rule getApiKey_with_models)
  from getModelInstance_provider_id [of ?w "''sk-test''" "''fast''"] getModelInstance_provider_id [of ?w "''sk-test''" "''gpt-4o''"] k
  show ?thesis
    by (simp add: getUserModels_with_models getDefaultModel_with_models)
       (simp add: user_model_def)
qed

text \<open>
  Counterexample to C9 as stated: a record whose \<^verbatim>\<open>modelId\<close> is the empty string
  is found, yet the client is built for the supplied id, not for the record's
  identifier; and a supplied empty id, which no record has, is not used
  literally: the call takes the default branch, which fails here.
\<close>

theorem getModelInstance_provider_id_counterexample:
  "find (\<lambda>m. um_id m = ''fast'') (getUserModels (with_models [user_model ''fast'' [] None]))
     = Some (user_model ''fast'' [] None) \<and>
   map_sum id model (fst (getModelInstance (Some ''fast'') (with_models [user_model ''fast'' [] None])))
     = Inr ''fast'' \<and>
   modelId (user_model ''fast'' [] None) \<noteq> ''fast'' \<and>
   find (\<lambda>m. um_id m = []) (getUserModels keyed) = None \<and>
   fst (getModelInstance (Some []) keyed) = Inl NoDefaultModel"
  by (simp add: resolve_blank resolve_empty getUserModels_with_models getUserModels_keyed)
     (simp add: user_model_def)


section \<open>The default flag\<close>

text \<open>
  What holds of the flag. When the stored records have pairwise distinct ids,
  which each of the three operations preserves, \<^verbatim>\<open>models:setDefault\<close> writes, in
  one update, records of which exactly those with the given id are flagged,
  hence at most one; and \<^verbatim>\<open>deleteUserModel\<close> never increases the number of
  flagged records.
\<close>

lemma setDefault_exclusive:
  "distinct (map um_id (getUserModels w)) \<Longrightarrow>
     (\<forall>x \<in> set (getUserModels (models_setDefault i w)). flagged x \<longleftrightarrow> um_id x = i) \<and>
     default_count (getUserModels (models_setDefault i w)) \<le> 1 \<and>
     default_count (getUserModels (deleteUserModel i w)) \<le> default_count (getUserModels w) \<and>
     distinct (map um_id (getUserModels (models_setDefault i w))) \<and>
     distinct (map um_id (getUserModels (deleteUserModel i w))) \<and>
     distinct (map um_id (getUserModels (addUserModel m w)))"
proof (intro conjI)
  assume d: "distinct (map um_id (getUserModels w))"
  show "\<forall>x \<in> set (getUserModels (models_setDefault i w)). flagged x \<longleftrightarrow> um_id x = i"
    by (auto simp: getUserModels_setDefault flagged_def)
  show "default_count (getUserModels (models_setDefault i w)) \<le> 1"
    using count_same_id [OF d, of i] by (simp add: getUserModels_setDefault count_after_setDefault)
  show "default_count (getUserModels (deleteUserModel i w)) \<le> default_count (getUserModels w)"
    by (simp add: getUserModels_delete count_filter)
  show "distinct (map um_id (getUserModels (models_setDefault i w)))"
    using d by (simp add: getUserModels_setDefault comp_def)
  show "distinct (map um_id (getUserModels (deleteUserModel i w)))"
    using d by (simp add: getUserModels_delete distinct_map_filter)
  show "distinct (map um_id (getUserModels (addUserModel m w)))"
    using d by (simp add: getUserModels_add distinct_put_model)
qed

text \<open>
  C4 fails on the code. Starting with no records, \<^verbatim>\<open>addUserModel\<close> is called with
  a record flagged as the default and then with a second record, of another
  id, flagged as well: it stores each record as given and clears no flag, so
  two records are flagged, and \<^verbatim>\<open>getDefaultModel\<close> answers with the first, not
  with the one added last. When the default is set through
  \<^verbatim>\<open>models:setDefault\<close> instead, one record is flagged.
\<close>

theorem addUserModel_second_default:
  "getUserModels (addUserModel (user_model ''b'' ''gpt-4o-mini'' (Some True))
      (addUserModel (user_model ''a'' ''gpt-4o'' (Some True)) fresh)) =
     [user_model ''a'' ''gpt-4o'' (Some True), user_model ''b'' ''gpt-4o-mini'' (Some True)] \<and>
   default_count (getUserModels (addUserModel (user_model ''a'' ''gpt-4o'' (Some True)) fresh)) = 1 \<and>
   default_count (getUserModels (addUserModel (user_model ''b'' ''gpt-4o-mini'' (Some True))
      (addUserModel (user_model ''a'' ''gpt-4o'' (Some True)) fresh))) = 2 \<and>
   getDefaultModel (addUserModel (user_model ''b'' ''gpt-4o-mini'' (Some True))
      (addUserModel (user_model ''a'' ''gpt-4o'' (Some True)) fresh)) = Some ''a'' \<and>
   default_count (getUserModels (models_setDefault ''b''
      (addUserModel (user_model ''a'' ''gpt-4o'' (Some True))
         (addUserModel (user_model ''b'' ''gpt-4o-mini'' None) fresh)))) = 1"
proof -
  have e: "getUserModels fresh = []" by (simp add: getUserModels_def fresh_def)
  have ab: "um_id (user_model ''a'' ''gpt-4o'' (Some True)) \<noteq> um_id (user_model ''b'' ''gpt-4o-mini'' (Some True))"
    "um_id (user_model ''b'' ''gpt-4o-mini'' None) \<noteq> um_id (user_model ''a'' ''gpt-4o'' (Some True))"
    by (simp_all add: user_model_def)
  have f: "flagged (user_model ''a'' ''gpt-4o'' (Some True))"
    "flagged (user_model ''b'' ''gpt-4o-mini'' (Some True))"
    by (simp_all add: flagged_def user_model_def)
  have l: "getUserModels (addUserModel (user_model ''b'' ''gpt-4o-mini'' (Some True))
      (addUserModel (user_model ''a'' ''gpt-4o'' (Some True)) fresh)) =
     [user_model ''a'' ''gpt-4o'' (Some True), user_model ''b'' ''gpt-4o-mini'' (Some True)]"
    using ab by (simp add: getUserModels_add e)
  have d: "getDefaultModel (addUserModel (user_model ''b'' ''gpt-4o-mini'' (Some True))
      (addUserModel (user_model ''a'' ''gpt-4o'' (Some True)) fresh)) = Some ''a''"
    using f by (simp add: getDefaultModel_def l js_or_def truthy_def) (simp add: user_model_def)
  have s: "default_count (getUserModels (models_setDefault ''b''
      (addUserModel (user_model ''a'' ''gpt-4o'' (Some True))
         (addUserModel (user_model ''b'' ''gpt-4o-mini'' None) fresh)))) = 1"
    using ab by (simp add: getUserModels_setDefault getUserModels_add e default_count_def flagged_def)
      (simp add: user_model_def)
  show ?thesis using l d s f by (simp add: getUserModels_add e default_count_def)
qed


section \<open>External tool servers and the session\<close>

text \<open>
  C8, as amended. \<^verbatim>\<open>initMCP\<close> never raises. It makes one call for all the
  servers: when that call returns, its tools become the tool list; when it
  fails, for whatever reason, the tool list is empty. In the state it leaves,
  whichever way it went, \<^verbatim>\<open>createAgentRuntime\<close> with a thread id, a workspace
  path and a model that resolves returns an agent whenever the checkpointer of
  the thread is cached or its initialization succeeds, and the agent's tools
  are that list, or \<^verbatim>\<open>undefined\<close> when it is empty; when the initialization of
  a new checkpointer rejects, \<^verbatim>\<open>createAgentRuntime\<close> fails with that error.
\<close>

theorem initMCP_contained:
  "\<exists>w'. initMCP loaded w = Inr w' \<and>
     mcpTools w' = (case loaded of Inl e \<Rightarrow> [] | Inr ts \<Rightarrow> ts) \<and>
     (threadId options \<noteq> [] \<and> workspacePath options \<noteq> [] \<and>
      fst (getModelInstance (modelId_opt options) w) = Inr m \<longrightarrow>
        (checkpointers w (threadId options) \<noteq> None \<or> failure = None \<longrightarrow>
           (\<exists>agent w''. createAgentRuntime failure options w' = (Inr agent, w'') \<and>
              tools agent = (if mcpTools w' = [] then None else Some (mcpTools w')))) \<and>
        (checkpointers w (threadId options) = None \<and> failure = Some e \<longrightarrow>
           fst (createAgentRuntime failure options w') = Inl e))"
proof -
  obtain w' where r: "initMCP loaded w = Inr w'"
    and t: "mcpTools w' = (case loaded of Inl e \<Rightarrow> [] | Inr ts \<Rightarrow> ts)"
    and same: "env_file w' = env_file w" "process_env w' = process_env w"
      "user_models_file w' = user_models_file w" "settings w' = settings w"
    and cps: "checkpointers w' = checkpointers w"
    using initMCP_result by blast
  have "(checkpointers w (threadId options) \<noteq> None \<or> failure = None \<longrightarrow>
           (\<exists>agent w''. createAgentRuntime failure options w' = (Inr agent, w'') \<and>
              tools agent = (if mcpTools w' = [] then None else Some (mcpTools w')))) \<and>
        (checkpointers w (threadId options) = None \<and> failure = Some e \<longrightarrow>
           fst (createAgentRuntime failure options w') = Inl e)"
    if h: "threadId options \<noteq> [] \<and> workspacePath options \<noteq> [] \<and>
      fst (getModelInstance (modelId_opt options) w) = Inr m"
  proof (intro conjI impI)
    from h getModelInstance_cong [OF same]
    have g: "fst (getModelInstance (modelId_opt options) w') = Inr m" by simp
    {
      assume "checkpointers w (threadId options) \<noteq> None \<or> failure = None"
      with cps have "checkpointers w' (threadId options) \<noteq> None \<or> failure = None" by simp
      with h g createAgentRuntime_returns [of options w' m failure]
      show "\<exists>agent w''. createAgentRuntime failure options w' = (Inr agent, w'') \<and>
              tools agent = (if mcpTools w' = [] then None else Some (mcpTools w'))"
        by blast
    }
    {
      assume "checkpointers w (threadId options) = None \<and> failure = Some e"
      with cps h g createAgentRuntime_rejects [of options w' m e]
      show "fst (createAgentRuntime failure options w') = Inl e" by simp
    }
  qed
  with r t show ?thesis by blast
qed

theorem initMCP_contained_witness:
  "\<exists>w'. initMCP (Inl (Error ''connect ECONNREFUSED'')) keyed = Inr w' \<and> mcpTools w' = [] \<and>
     (\<exists>agent w''. createAgentRuntime None (opts ''t1'' ''/home/u/ws'') w' = (Inr agent, w'') \<and>
        tools agent = None) \<and>
     fst (createAgentRuntime (Some (Error ''init failed'')) (opts ''t1'' ''/home/u/ws'') w') =
       Inl (Error ''init failed'')"
proof -
  have h: "threadId (opts ''t1'' ''/home/u/ws'') \<noteq> [] \<and> workspacePath (opts ''t1'' ''/home/u/ws'') \<noteq> [] \<and>
      fst (getModelInstance (modelId_opt (opts ''t1'' ''/home/u/ws'')) keyed) =
        Inr \<lparr>model = ''gpt-4o'', openAIApiKey = ''sk-test'',
          baseURL = DEFAULT_BASE_URL, apiKey = ''sk-test''\<rparr>"
    using getModelInstance_keyed by (simp add: opts_def)
  have c: "checkpointers keyed (threadId (opts ''t1'' ''/home/u/ws'')) = None"
    by (simp add: keyed_def fresh_def)
  obtain w' where a: "initMCP (Inl (Error ''connect ECONNREFUSED'')) keyed = Inr w'"
    by (simp add: initMCP_def initMCP_try_def)
  from initMCP_contained [of "Inl (Error ''connect ECONNREFUSED'')" keyed "opts ''t1'' ''/home/u/ws''" _ None] a h
  have 1: "mcpTools w' = [] \<and>
     (\<exists>agent w''. createAgentRuntime None (opts ''t1'' ''/home/u/ws'') w' = (Inr agent, w'') \<and>
        tools agent = None)"
    by fastforce
  from initMCP_contained [of "Inl (Error ''connect ECONNREFUSED'')" keyed "opts ''t1'' ''/home/u/ws''" _
      "Some (Error ''init failed'')" "Error ''init failed''"] a h c
  have 2: "fst (createAgentRuntime (Some (Error ''init failed'')) (opts ''t1'' ''/home/u/ws'') w') =
       Inl (Error ''init failed'')"
    by fastforce
  from a 1 2 show ?thesis by blast
qed

text \<open>
  Counterexample to C8 as stated: with the first server unreachable and the
  second offering a tool, the client's call fails as a whole and the tool list
  is empty; the tool of the reachable server is not in it.
\<close>

theorem initMCP_contained_counterexample:
  "one_down ''stargate-yingmi'' = Inr [Tool ''fund_search''] \<and>
   map_sum id mcpTools (initMCP (client_getTools one_down MCP_SERVERS) fresh) = Inr []"
  by (simp add: one_down_def MCP_SERVERS_def initMCP_def initMCP_try_def)


section \<open>The workspace boundary\<close>

text \<open>
  C1 fails on the code. The handlers compare the resolved path with the
  resolved workspace by \<^verbatim>\<open>startsWith\<close>, character by character. For the workspace
  \<^verbatim>\<open>/home/u/ws\<close> and the virtual path \<^verbatim>\<open>/../ws-private/secret.txt\<close>, the resolved
  path \<^verbatim>\<open>/home/u/ws-private/secret.txt\<close> does not lie within the workspace, yet it
  passes the check: both handlers call \<^verbatim>\<open>fs.stat\<close> and \<^verbatim>\<open>fs.readFile\<close> on it and
  return the content of the file.
\<close>

theorem read_handler_sibling_escape:
  "\<not> lies_within (path_resolve (cwd sibling) ''/home/u/ws'')
       (path_resolve (cwd sibling) (path_join ''/home/u/ws'' ''../ws-private/secret.txt'')) \<and>
   workspace_readFile ''t1'' ''/../ws-private/secret.txt'' sibling =
     (Read ''top secret'' 10 ''2024-01-01T00:00:00.000Z'',
      sibling\<lparr>fs_ops := [Stat ''/home/u/ws-private/secret.txt'',
                          ReadFile ''/home/u/ws-private/secret.txt'']\<rparr>) \<and>
   workspace_readBinaryFile base64 ''t1'' ''/../ws-private/secret.txt'' sibling =
     (Read (base64 ''top secret'') 10 ''2024-01-01T00:00:00.000Z'',
      sibling\<lparr>fs_ops := [Stat ''/home/u/ws-private/secret.txt'',
                          ReadFile ''/home/u/ws-private/secret.txt'']\<rparr>)"
proof -
  have "cwd sibling = ''/app''" by (simp add: sibling_def fresh_def)
  moreover have "\<not> lies_within ''/home/u/ws'' ''/home/u/ws-private/secret.txt''"
    by (simp add: lies_within_def segments_def)
  ultimately show ?thesis
    by (simp add: workspace_readFile_def workspace_readBinaryFile_def sibling_read
        sibling_join sibling_resolve sibling_root)
qed



section \<open>The API key\<close>




end
